theory Spec2Isabelle
  imports Complex_Main
begin

section \<open>The host language: values, truthiness, strings, numbers\<close>

text \<open>
  A JavaScript number. \<open>parseFloat\<close> yields \<open>NaN\<close>, an infinity or a finite value; a
  finite value is kept as the exact rational its decimal text denotes (the rounding to
  the nearest double is the same function for a source literal and for a parsed text, so
  equal rationals are equal doubles; \<open>-0\<close> and \<open>0\<close> are one value here).
\<close>

datatype number = NaN | Infinity bool | Fin rat

text \<open>
  The raw tree the XML layer hands to the normalizer. A value is never \<open>undefined\<close> or
  \<open>null\<close>; an absent property is \<open>None\<close> at the place where it is read. An element
  with attributes or child elements is \<open>RObj attrs children\<close>: \<open>attrs\<close> holds the
  entries whose key carries the prefix \<open>@_\<close> (the prefix stripped, the values strings),
  \<open>children\<close> every other entry, the text entry \<open>#text\<close> among them. A repeated
  element is \<open>RArr\<close>, in document order. An element with text only is a bare
  primitive: a string, a number or a boolean; an element with neither attributes nor
  content is the empty string. Attribute values are strings, which is what the XML
  layer delivers for well-formed XML when it is not told to parse attribute values.
\<close>

datatype raw =
    RStr string
  | RNum number
  | RBool bool
  | RArr "raw list"
  | RObj "(string \<times> string) list" "(string \<times> raw) list"

text \<open>JavaScript truthiness of a value that is not \<open>undefined\<close>.\<close>

fun truthy :: "raw \<Rightarrow> bool" where
  "truthy (RStr s) = (s \<noteq> [])"
| "truthy (RNum NaN) = False"
| "truthy (RNum (Infinity b)) = True"
| "truthy (RNum (Fin q)) = (q \<noteq> 0)"
| "truthy (RBool b) = b"
| "truthy (RArr xs) = True"
| "truthy (RObj as cs) = True"

text \<open>Truthiness of an expression that may be \<open>undefined\<close>.\<close>

fun truthy_opt :: "raw option \<Rightarrow> bool" where
  "truthy_opt None = False"
| "truthy_opt (Some v) = truthy v"

text \<open>
  \<open>v.key\<close> for a key that is an element name or \<open>#text\<close>: an own property of an
  object, \<open>undefined\<close> on a primitive or an array. Of the names the normalizer reads,
  a primitive inherits only \<open>link\<close>, a method of strings: read from a robot node that
  is a string it is a function, which carries no \<open>name\<close>, so the loop over the links
  skips it and the links are those of \<open>undefined\<close>.
\<close>

fun get_prop :: "raw \<Rightarrow> string \<Rightarrow> raw option" where
  "get_prop (RObj as cs) k = map_of cs k"
| "get_prop v k = None"

text \<open>\<open>v['@_' + key]\<close>: only an object carries attributes.\<close>

fun get_attr :: "raw \<Rightarrow> string \<Rightarrow> string option" where
  "get_attr (RObj as cs) k = map_of as k"
| "get_attr v k = None"

text \<open>\<open>e || []\<close>\<close>

fun or_empty :: "raw option \<Rightarrow> raw" where
  "or_empty None = RArr []"
| "or_empty (Some v) = (if truthy v then v else RArr [])"

text \<open>
  Strings are lists of 8-bit code units. The white space of \<open>trim\<close>, of \<open>\s\<close> and of
  \<open>parseFloat\<close> is one set: TAB, LF, VT, FF, CR, SP and NBSP in this range.
\<close>

definition is_space :: "char \<Rightarrow> bool" where
  "is_space c = ((of_char c :: int) \<in> {9, 10, 11, 12, 13, 32, 160})"

definition is_digit :: "char \<Rightarrow> bool" where
  "is_digit c = (48 \<le> (of_char c :: int) \<and> (of_char c :: int) \<le> 57)"

definition trim :: "string \<Rightarrow> string" where
  "trim s = rev (dropWhile is_space (rev (dropWhile is_space s)))"

text \<open>
  \<open>s.split(/\s+/)\<close>: every maximal run of white space separates two tokens, so a
  leading or trailing run leaves an empty token, and the empty string gives one empty
  token.
\<close>

function split_ws :: "string \<Rightarrow> string list" where
  "split_ws [] = [[]]"
| "split_ws (c # cs) =
     (if is_space c then [] # split_ws (dropWhile is_space cs)
      else (case split_ws cs of t # ts \<Rightarrow> (c # t) # ts | [] \<Rightarrow> [[c]]))"
  by pat_completeness auto
termination
  by (relation "measure length") (auto simp: less_Suc_eq_le length_dropWhile_le)

text \<open>The value of a run of decimal digits.\<close>

definition digits_val :: "string \<Rightarrow> int" where
  "digits_val ds = foldl (\<lambda>a c. 10 * a + ((of_char c :: int) - 48)) 0 ds"

text \<open>\<open>m * 10 ^ e\<close> for an integer exponent.\<close>

definition scale10 :: "rat \<Rightarrow> int \<Rightarrow> rat" where
  "scale10 m e = (if 0 \<le> e then m * 10 ^ nat e else m / 10 ^ nat (- e))"

text \<open>
  The exponent part after the mantissa: \<open>e\<close> or \<open>E\<close>, an optional sign and at least
  one digit; anything else is not part of the literal and counts as exponent 0.
\<close>

definition exponent_part :: "string \<Rightarrow> int" where
  "exponent_part r =
     (case r of
        [] \<Rightarrow> 0
      | c # r1 \<Rightarrow>
          if c = CHR ''e'' \<or> c = CHR ''E'' then
            (case r1 of
               [] \<Rightarrow> 0
             | s # r2 \<Rightarrow>
                 if s = CHR ''-'' then
                   (if takeWhile is_digit r2 = [] then 0
                    else - digits_val (takeWhile is_digit r2))
                 else if s = CHR ''+'' then digits_val (takeWhile is_digit r2)
                 else digits_val (takeWhile is_digit r1))
          else 0)"

text \<open>
  \<open>parseFloat\<close>: skip leading white space, then read the longest prefix that is a
  signed decimal literal (\<open>Infinity\<close>, or digits with an optional fraction and an
  optional exponent, at least one digit in the mantissa); \<open>NaN\<close> when there is none.
\<close>

definition unsigned_literal :: "string \<Rightarrow> number" where
  "unsigned_literal u =
     (if take 8 u = ''Infinity'' then Infinity False
      else
        let ip = takeWhile is_digit u;
            r1 = dropWhile is_digit u;
            fp = (case r1 of [] \<Rightarrow> [] | c # r \<Rightarrow> if c = CHR ''.'' then takeWhile is_digit r else []);
            r2 = (case r1 of [] \<Rightarrow> [] | c # r \<Rightarrow> if c = CHR ''.'' then dropWhile is_digit r else r1)
        in if ip = [] \<and> fp = [] then NaN
           else Fin (scale10 (of_int (digits_val (ip @ fp))) (exponent_part r2 - int (length fp))))"

fun negate :: "number \<Rightarrow> number" where
  "negate NaN = NaN"
| "negate (Infinity b) = Infinity (\<not> b)"
| "negate (Fin q) = Fin (- q)"

definition parseFloat :: "string \<Rightarrow> number" where
  "parseFloat s =
     (case dropWhile is_space s of
        [] \<Rightarrow> NaN
      | c # r \<Rightarrow>
          if c = CHR ''-'' then negate (unsigned_literal r)
          else if c = CHR ''+'' then unsigned_literal r
          else unsigned_literal (c # r))"

definition isNaN :: "number \<Rightarrow> bool" where
  "isNaN n = (n = NaN)"

text \<open>
  \<open>String(v)\<close>, which \<open>v.toString()\<close> and the argument coercion of \<open>parseFloat\<close>
  both compute. The text of a number is the host's \<open>Number.prototype.toString\<close>; it is
  the parameter \<open>nts\<close>, and every result below holds for any such function.
\<close>

fun join_comma :: "string list \<Rightarrow> string" where
  "join_comma [] = []"
| "join_comma [s] = s"
| "join_comma (s # t # ts) = s @ '','' @ join_comma (t # ts)"

fun js_toString :: "(number \<Rightarrow> string) \<Rightarrow> raw \<Rightarrow> string" where
  "js_toString nts (RStr s) = s"
| "js_toString nts (RNum n) = nts n"
| "js_toString nts (RBool b) = (if b then ''true'' else ''false'')"
| "js_toString nts (RArr xs) = join_comma (map (js_toString nts) xs)"
| "js_toString nts (RObj as cs) = ''[object Object]''"

text \<open>\<open>typeof v === 'object'\<close>, \<open>'string'\<close>, \<open>'number'\<close>\<close>

fun is_object :: "raw \<Rightarrow> bool" where
  "is_object (RArr xs) = True"
| "is_object (RObj as cs) = True"
| "is_object v = False"

fun is_string :: "raw \<Rightarrow> bool" where
  "is_string (RStr s) = True"
| "is_string v = False"

fun is_number :: "raw \<Rightarrow> bool" where
  "is_number (RNum n) = True"
| "is_number v = False"

text \<open>\<open>if (e) { field = f(e) }\<close>: the field is set from a truthy \<open>e\<close> and left out otherwise.\<close>

fun when_truthy :: "raw option \<Rightarrow> (raw \<Rightarrow> 'a) \<Rightarrow> 'a option" where
  "when_truthy None f = None"
| "when_truthy (Some v) f = (if truthy v then Some (f v) else None)"

section \<open>The typed model (types/urdf.ts)\<close>

text \<open>
  The interfaces of the source as records; an optional field is an \<open>option\<close>. The
  components \<open>x\<close>, \<open>y\<close>, \<open>z\<close> are \<open>vx\<close>, \<open>vy\<close>, \<open>vz\<close>, and fields that several
  interfaces share carry the initial of their interface. A nested object with a single
  field is kept as that field: \<open>mass.value\<close> is \<open>i_mass\<close>, \<open>box.size\<close> is \<open>g_box\<close>,
  \<open>sphere.radius\<close> is \<open>g_sphere\<close>, \<open>color.rgba\<close> is \<open>m_color\<close>, \<open>texture.filename\<close> is
  \<open>m_texture\<close> (set, with a file name that may be \<open>undefined\<close>), \<open>axis.xyz\<close> is
  \<open>j_axis\<close>, \<open>parent.link\<close> is \<open>j_parent\<close>, \<open>child.link\<close> is \<open>j_child\<close> and the
  transmission's \<open>joint.name\<close> is \<open>t_joint\<close>.
\<close>

record Vector3 =
  vx :: number
  vy :: number
  vz :: number

type_synonym RGBA = "number \<times> number \<times> number \<times> number"

record Origin =
  xyz :: "Vector3 option"
  rpy :: "Vector3 option"

record Inertia =
  ixx :: number
  ixy :: number
  ixz :: number
  iyy :: number
  iyz :: number
  izz :: number

record Inertial =
  i_origin :: "Origin option"
  i_mass :: "number option"
  i_inertia :: "Inertia option"

record Cylinder =
  cyl_radius :: number
  cyl_length :: number

record Mesh =
  mesh_filename :: "string option"
  mesh_scale :: "Vector3 option"

record Geometry =
  g_box :: "Vector3 option"
  g_cylinder :: "Cylinder option"
  g_sphere :: "number option"
  g_mesh :: "Mesh option"

record Material =
  m_name :: "string option"
  m_color :: "RGBA option"
  m_texture :: "string option option"

record Visual =
  v_name :: "string option"
  v_origin :: "Origin option"
  v_geometry :: "Geometry option"
  v_material :: "Material option"

record Collision =
  c_name :: "string option"
  c_origin :: "Origin option"
  c_geometry :: "Geometry option"

record Link =
  l_name :: string
  l_inertial :: "Inertial option"
  l_visuals :: "Visual list"
  l_collisions :: "Collision list"

record JointLimit =
  lim_lower :: number
  lim_upper :: number
  lim_effort :: number
  lim_velocity :: number

record JointDynamics =
  dyn_damping :: number
  dyn_friction :: number

record Calibration =
  cal_rising :: number
  cal_falling :: number

record Mimic =
  mimic_joint :: string
  mimic_multiplier :: number
  mimic_offset :: number

record Joint =
  j_name :: string
  j_type :: string
  j_parent :: string
  j_child :: string
  j_origin :: "Origin option"
  j_axis :: "Vector3 option"
  j_limit :: "JointLimit option"
  j_dynamics :: "JointDynamics option"
  j_calibration :: "Calibration option"
  j_mimic :: "Mimic option"

text \<open>
  The transmission's \<open>type\<close> is declared a string, but the first branch of its
  conversion stores the text entry as it is; the field therefore holds a raw value.
\<close>

record Actuator =
  a_name :: string
  a_mechanicalReduction :: "number option"

record Transmission =
  t_name :: "string option"
  t_type :: "raw option"
  t_joint :: "string option"
  t_actuator :: "Actuator option"

record Robot =
  r_name :: string
  r_links :: "Link list"
  r_joints :: "Joint list"
  r_materials :: "Material list"
  r_transmissions :: "Transmission list"

section \<open>Primitive coercion utilities (utils/parsing.ts)\<close>

definition parseNumber :: "string option \<Rightarrow> number \<Rightarrow> number" where
  "parseNumber v defaultValue =
     (case v of
        None \<Rightarrow> defaultValue
      | Some s \<Rightarrow> (let num = parseFloat s in if isNaN num then defaultValue else num))"

text \<open>The defaults of the optional parameters.\<close>

definition zero3 :: Vector3 where
  "zero3 = \<lparr>vx = Fin 0, vy = Fin 0, vz = Fin 0\<rparr>"

definition default_rgba :: RGBA where
  "default_rgba = (Fin 0, Fin 0, Fin 0, Fin 1)"

definition parseVector3 :: "string option \<Rightarrow> Vector3 \<Rightarrow> Vector3" where
  "parseVector3 v defaultValue =
     (case v of
        None \<Rightarrow> defaultValue
      | Some s \<Rightarrow>
          (let parts = split_ws (trim s) in
           if length parts \<noteq> 3 then defaultValue
           else \<lparr>vx = parseNumber (Some (parts ! 0)) (vx defaultValue),
                 vy = parseNumber (Some (parts ! 1)) (vy defaultValue),
                 vz = parseNumber (Some (parts ! 2)) (vz defaultValue)\<rparr>))"

definition parseRGBA :: "string option \<Rightarrow> RGBA \<Rightarrow> RGBA" where
  "parseRGBA v defaultValue =
     (case v of
        None \<Rightarrow> defaultValue
      | Some s \<Rightarrow>
          (let parts = split_ws (trim s) in
           if length parts \<noteq> 4 then defaultValue
           else (case defaultValue of (d0, d1, d2, d3) \<Rightarrow>
                   (parseNumber (Some (parts ! 0)) d0,
                    parseNumber (Some (parts ! 1)) d1,
                    parseNumber (Some (parts ! 2)) d2,
                    parseNumber (Some (parts ! 3)) d3))))"

fun ensureArray :: "raw option \<Rightarrow> raw list" where
  "ensureArray None = []"
| "ensureArray (Some (RArr xs)) = xs"
| "ensureArray (Some v) = [v]"

text \<open>
  \<open>getAttribute\<close>: \<open>undefined\<close> when the node is \<open>undefined\<close> or falsy, or when the
  stored attribute is missing or falsy (the empty string); the stored value otherwise.
  Reading a property of a truthy value cannot throw.
\<close>

definition getAttribute :: "raw option \<Rightarrow> string \<Rightarrow> string option" where
  "getAttribute obj attributeName =
     (case obj of
        None \<Rightarrow> None
      | Some v \<Rightarrow>
          if \<not> truthy v then None
          else (case get_attr v attributeName of
                  None \<Rightarrow> None
                | Some s \<Rightarrow> if s = [] then None else Some s))"

section \<open>The tree normalizer (parser/urdfParser.ts)\<close>

datatype error = Error string

text \<open>
  The block that four routines repeat for \<open>origin\<close>: an empty object, with \<open>xyz\<close> and
  \<open>rpy\<close> set when the attribute is there.
\<close>

definition processOrigin :: "raw \<Rightarrow> Origin" where
  "processOrigin originData =
     \<lparr>xyz = (case getAttribute (Some originData) ''xyz'' of
               None \<Rightarrow> None
             | Some s \<Rightarrow> Some (parseVector3 (Some s) zero3)),
      rpy = (case getAttribute (Some originData) ''rpy'' of
               None \<Rightarrow> None
             | Some s \<Rightarrow> Some (parseVector3 (Some s) zero3))\<rparr>"

definition processInertial :: "raw \<Rightarrow> Inertial" where
  "processInertial inertialData =
     \<lparr>i_origin = when_truthy (get_prop inertialData ''origin'') processOrigin,
      i_mass = when_truthy (get_prop inertialData ''mass'')
                 (\<lambda>m. parseNumber (getAttribute (Some m) ''value'') (Fin 0)),
      i_inertia = when_truthy (get_prop inertialData ''inertia'')
                 (\<lambda>i. \<lparr>ixx = parseNumber (getAttribute (Some i) ''ixx'') (Fin 0),
                        ixy = parseNumber (getAttribute (Some i) ''ixy'') (Fin 0),
                        ixz = parseNumber (getAttribute (Some i) ''ixz'') (Fin 0),
                        iyy = parseNumber (getAttribute (Some i) ''iyy'') (Fin 0),
                        iyz = parseNumber (getAttribute (Some i) ''iyz'') (Fin 0),
                        izz = parseNumber (getAttribute (Some i) ''izz'') (Fin 0)\<rparr>)\<rparr>"

text \<open>The mesh: the file name as read, and a scale only when the attribute is truthy.\<close>

definition processMesh :: "raw \<Rightarrow> Mesh" where
  "processMesh meshData =
     \<lparr>mesh_filename = getAttribute (Some meshData) ''filename'',
      mesh_scale = (case getAttribute (Some meshData) ''scale'' of
                      None \<Rightarrow> None
                    | Some scale \<Rightarrow>
                        Some (parseVector3 (Some scale) \<lparr>vx = Fin 1, vy = Fin 1, vz = Fin 1\<rparr>))\<rparr>"

definition processGeometry :: "raw \<Rightarrow> Geometry" where
  "processGeometry geometryData =
     \<lparr>g_box = when_truthy (get_prop geometryData ''box'')
                 (\<lambda>b. parseVector3 (getAttribute (Some b) ''size'') zero3),
      g_cylinder = when_truthy (get_prop geometryData ''cylinder'')
                 (\<lambda>c. \<lparr>cyl_radius = parseNumber (getAttribute (Some c) ''radius'') (Fin 0),
                        cyl_length = parseNumber (getAttribute (Some c) ''length'') (Fin 0)\<rparr>),
      g_sphere = when_truthy (get_prop geometryData ''sphere'')
                 (\<lambda>s. parseNumber (getAttribute (Some s) ''radius'') (Fin 0)),
      g_mesh = when_truthy (get_prop geometryData ''mesh'') processMesh\<rparr>"

definition processMaterial :: "raw \<Rightarrow> Material" where
  "processMaterial materialData =
     \<lparr>m_name = getAttribute (Some materialData) ''name'',
      m_color = when_truthy (get_prop materialData ''color'')
                 (\<lambda>c. parseRGBA (getAttribute (Some c) ''rgba'') default_rgba),
      m_texture = when_truthy (get_prop materialData ''texture'')
                 (\<lambda>t. getAttribute (Some t) ''filename'')\<rparr>"

definition processVisual :: "raw \<Rightarrow> Visual" where
  "processVisual visualData =
     \<lparr>v_name = getAttribute (Some visualData) ''name'',
      v_origin = when_truthy (get_prop visualData ''origin'') processOrigin,
      v_geometry = when_truthy (get_prop visualData ''geometry'') processGeometry,
      v_material = when_truthy (get_prop visualData ''material'') processMaterial\<rparr>"

definition processCollision :: "raw \<Rightarrow> Collision" where
  "processCollision collisionData =
     \<lparr>c_name = getAttribute (Some collisionData) ''name'',
      c_origin = when_truthy (get_prop collisionData ''origin'') processOrigin,
      c_geometry = when_truthy (get_prop collisionData ''geometry'') processGeometry\<rparr>"

text \<open>The link that the loop of \<open>processLinks\<close> builds once the name is there.\<close>

definition processedLink :: "string \<Rightarrow> raw \<Rightarrow> Link" where
  "processedLink nm link =
     \<lparr>l_name = nm,
      l_inertial = when_truthy (get_prop link ''inertial'') processInertial,
      l_visuals = (if truthy_opt (get_prop link ''visual'')
                   then map processVisual (ensureArray (get_prop link ''visual'')) else []),
      l_collisions = (if truthy_opt (get_prop link ''collision'')
                   then map processCollision (ensureArray (get_prop link ''collision'')) else [])\<rparr>"

text \<open>The loop over the links: \<open>continue\<close> without a name, \<open>push\<close> otherwise.\<close>

fun processLinks_loop :: "raw list \<Rightarrow> Link list \<Rightarrow> Link list" where
  "processLinks_loop [] links = links"
| "processLinks_loop (link # rest) links =
     (case getAttribute (Some link) ''name'' of
        None \<Rightarrow> processLinks_loop rest links
      | Some nm \<Rightarrow> processLinks_loop rest (links @ [processedLink nm link]))"

definition processLinks :: "raw \<Rightarrow> Link list" where
  "processLinks linkData = processLinks_loop (ensureArray (Some linkData)) []"

text \<open>The joint that the loop of \<open>processJoints\<close> builds once the four required parts are there.\<close>

definition processedJoint :: "string \<Rightarrow> string \<Rightarrow> string \<Rightarrow> string \<Rightarrow> raw \<Rightarrow> Joint" where
  "processedJoint nm ty pl cl joint =
     \<lparr>j_name = nm,
      j_type = ty,
      j_parent = pl,
      j_child = cl,
      j_origin = when_truthy (get_prop joint ''origin'') processOrigin,
      j_axis = when_truthy (get_prop joint ''axis'')
                 (\<lambda>a. parseVector3 (getAttribute (Some a) ''xyz'') \<lparr>vx = Fin 1, vy = Fin 0, vz = Fin 0\<rparr>),
      j_limit = when_truthy (get_prop joint ''limit'')
                 (\<lambda>l. \<lparr>lim_lower = parseNumber (getAttribute (Some l) ''lower'') (Fin 0),
                        lim_upper = parseNumber (getAttribute (Some l) ''upper'') (Fin 0),
                        lim_effort = parseNumber (getAttribute (Some l) ''effort'') (Fin 0),
                        lim_velocity = parseNumber (getAttribute (Some l) ''velocity'') (Fin 0)\<rparr>),
      j_dynamics = when_truthy (get_prop joint ''dynamics'')
                 (\<lambda>d. \<lparr>dyn_damping = parseNumber (getAttribute (Some d) ''damping'') (Fin 0),
                        dyn_friction = parseNumber (getAttribute (Some d) ''friction'') (Fin 0)\<rparr>),
      j_calibration = when_truthy (get_prop joint ''calibration'')
                 (\<lambda>c. \<lparr>cal_rising = parseNumber (getAttribute (Some c) ''rising'') (Fin 0),
                        cal_falling = parseNumber (getAttribute (Some c) ''falling'') (Fin 0)\<rparr>),
      j_mimic = (if truthy_opt (get_prop joint ''mimic'') then
                   (case getAttribute (get_prop joint ''mimic'') ''joint'' of
                      None \<Rightarrow> None
                    | Some mimicJoint \<Rightarrow>
                        Some \<lparr>mimic_joint = mimicJoint,
                              mimic_multiplier =
                                parseNumber (getAttribute (get_prop joint ''mimic'') ''multiplier'') (Fin 1),
                              mimic_offset =
                                parseNumber (getAttribute (get_prop joint ''mimic'') ''offset'') (Fin 0)\<rparr>)
                 else None)\<rparr>"

text \<open>
  The loop over the joints. The first \<open>continue\<close> is for a missing name or type, the
  second for a missing parent or child element or \<open>link\<close> attribute.
\<close>

fun processJoints_loop :: "raw list \<Rightarrow> Joint list \<Rightarrow> Joint list" where
  "processJoints_loop [] joints = joints"
| "processJoints_loop (joint # rest) joints =
     (case getAttribute (Some joint) ''name'' of
        None \<Rightarrow> processJoints_loop rest joints
      | Some nm \<Rightarrow>
          (case getAttribute (Some joint) ''type'' of
             None \<Rightarrow> processJoints_loop rest joints
           | Some ty \<Rightarrow>
               if \<not> truthy_opt (get_prop joint ''parent'') \<or> \<not> truthy_opt (get_prop joint ''child'')
               then processJoints_loop rest joints
               else (case getAttribute (get_prop joint ''parent'') ''link'' of
                       None \<Rightarrow> processJoints_loop rest joints
                     | Some pl \<Rightarrow>
                         (case getAttribute (get_prop joint ''child'') ''link'' of
                            None \<Rightarrow> processJoints_loop rest joints
                          | Some cl \<Rightarrow>
                              processJoints_loop rest (joints @ [processedJoint nm ty pl cl joint])))))"

definition processJoints :: "raw \<Rightarrow> Joint list" where
  "processJoints jointData = processJoints_loop (ensureArray (Some jointData)) []"

fun processMaterials_loop :: "raw list \<Rightarrow> Material list \<Rightarrow> Material list" where
  "processMaterials_loop [] materials = materials"
| "processMaterials_loop (material # rest) materials =
     processMaterials_loop rest (materials @ [processMaterial material])"

definition processMaterials :: "raw \<Rightarrow> Material list" where
  "processMaterials materialData = processMaterials_loop (ensureArray (Some materialData)) []"

text \<open>
  The \<open>type\<close> of a transmission, from the child element of that name: the text entry of
  an object when that entry is truthy, a string as it is, and the string form of
  anything else.
\<close>

definition transmissionType :: "(number \<Rightarrow> string) \<Rightarrow> raw \<Rightarrow> raw option" where
  "transmissionType nts transmission =
     (case get_prop transmission ''type'' of
        None \<Rightarrow> None
      | Some ty \<Rightarrow>
          if \<not> truthy ty then None
          else if is_object ty \<and> truthy_opt (get_prop ty ''#text'') then get_prop ty ''#text''
          else if is_string ty then Some ty
          else Some (RStr (js_toString nts ty)))"

text \<open>
  The \<open>mechanicalReduction\<close> of an actuator, from the child element of that name. The
  argument of \<open>parseNumber\<close> goes through \<open>parseFloat\<close>, which reads its string form.
\<close>

definition mechanicalReduction :: "(number \<Rightarrow> string) \<Rightarrow> raw \<Rightarrow> number option" where
  "mechanicalReduction nts actuator =
     (case get_prop actuator ''mechanicalReduction'' of
        None \<Rightarrow> None
      | Some mr \<Rightarrow>
          if \<not> truthy mr then None
          else if is_object mr \<and> truthy_opt (get_prop mr ''#text'') then
            (case get_prop mr ''#text'' of
               None \<Rightarrow> None
             | Some t \<Rightarrow> Some (parseNumber (Some (js_toString nts t)) (Fin 0)))
          else if is_string mr \<or> is_number mr then
            Some (parseNumber (Some (js_toString nts mr)) (Fin 0))
          else None)"

definition processedTransmission :: "(number \<Rightarrow> string) \<Rightarrow> raw \<Rightarrow> Transmission" where
  "processedTransmission nts transmission =
     \<lparr>t_name = getAttribute (Some transmission) ''name'',
      t_type = transmissionType nts transmission,
      t_joint = when_truthy (get_prop transmission ''joint'')
                 (\<lambda>j. case getAttribute (Some j) ''name'' of None \<Rightarrow> [] | Some n \<Rightarrow> n),
      t_actuator = when_truthy (get_prop transmission ''actuator'')
                 (\<lambda>a. \<lparr>a_name = (case getAttribute (Some a) ''name'' of None \<Rightarrow> [] | Some n \<Rightarrow> n),
                        a_mechanicalReduction = mechanicalReduction nts a\<rparr>)\<rparr>"

fun processTransmissions_loop ::
  "(number \<Rightarrow> string) \<Rightarrow> raw list \<Rightarrow> Transmission list \<Rightarrow> Transmission list" where
  "processTransmissions_loop nts [] transmissions = transmissions"
| "processTransmissions_loop nts (transmission # rest) transmissions =
     processTransmissions_loop nts rest (transmissions @ [processedTransmission nts transmission])"

definition processTransmissions :: "(number \<Rightarrow> string) \<Rightarrow> raw \<Rightarrow> Transmission list" where
  "processTransmissions nts transmissionData =
     processTransmissions_loop nts (ensureArray (Some transmissionData)) []"

definition missing_robot :: error where
  "missing_robot = Error ''Invalid URDF: Missing robot element''"

definition processURDF :: "(number \<Rightarrow> string) \<Rightarrow> raw \<Rightarrow> error + Robot" where
  "processURDF nts parsed =
     (if \<not> truthy_opt (get_prop parsed ''robot'') then Inl missing_robot
      else (case get_prop parsed ''robot'' of
              None \<Rightarrow> Inl missing_robot
            | Some robot \<Rightarrow>
                Inr \<lparr>r_name = (case getAttribute (Some robot) ''name'' of None \<Rightarrow> [] | Some n \<Rightarrow> n),
                     r_links = processLinks (or_empty (get_prop robot ''link'')),
                     r_joints = processJoints (or_empty (get_prop robot ''joint'')),
                     r_materials = processMaterials (or_empty (get_prop robot ''material'')),
                     r_transmissions =
                       processTransmissions nts (or_empty (get_prop robot ''transmission''))\<rparr>))"

text \<open>
  \<open>parse\<close>: the XML layer is a parameter; what it throws on text it cannot read is
  passed on.
\<close>

definition parse :: "(string \<Rightarrow> error + raw) \<Rightarrow> (number \<Rightarrow> string) \<Rightarrow> string \<Rightarrow> error + Robot" where
  "parse xml_parse nts text =
     (case xml_parse text of Inl e \<Rightarrow> Inl e | Inr parsed \<Rightarrow> processURDF nts parsed)"

section \<open>Notions used to state the properties\<close>

text \<open>\<open>Array.isArray\<close>\<close>

fun isArray :: "raw \<Rightarrow> bool" where
  "isArray (RArr xs) = True"
| "isArray v = False"

text \<open>
  What one element of the link array contributes to the output: nothing without a name,
  the converted link otherwise. Likewise for one element of the joint array, which
  needs a name, a type, and a parent and a child element with a \<open>link\<close> attribute.
\<close>

definition convert_link :: "raw \<Rightarrow> Link option" where
  "convert_link link =
     (case getAttribute (Some link) ''name'' of
        None \<Rightarrow> None
      | Some nm \<Rightarrow> Some (processedLink nm link))"

definition convert_joint :: "raw \<Rightarrow> Joint option" where
  "convert_joint joint =
     (case getAttribute (Some joint) ''name'' of
        None \<Rightarrow> None
      | Some nm \<Rightarrow>
          (case getAttribute (Some joint) ''type'' of
             None \<Rightarrow> None
           | Some ty \<Rightarrow>
               (case getAttribute (get_prop joint ''parent'') ''link'' of
                  None \<Rightarrow> None
                | Some pl \<Rightarrow>
                    (case getAttribute (get_prop joint ''child'') ''link'' of
                       None \<Rightarrow> None
                     | Some cl \<Rightarrow> Some (processedJoint nm ty pl cl joint)))))"


text \<open>
  A number-to-text function for closed instances: the decimal digits of an integer,
  as the host prints integers of magnitude below \<open>10^21\<close>; the integer part stands for
  any other finite number.
\<close>

function dec_digits :: "int \<Rightarrow> string" where
  "dec_digits n =
     (if n < 10 then [char_of (48 + n)]
      else dec_digits (n div 10) @ [char_of (48 + n mod 10)])"
  by pat_completeness auto
termination
  by (relation "measure nat") auto

fun number_text :: "number \<Rightarrow> string" where
  "number_text NaN = ''NaN''"
| "number_text (Infinity b) = (if b then ''-Infinity'' else ''Infinity'')"
| "number_text (Fin q) =
     (if q < 0 then CHR ''-'' # dec_digits (\<lfloor>- q\<rfloor>) else dec_digits (\<lfloor>q\<rfloor>))"

text \<open>
  The tokens of a string: its maximal runs of characters that are not white space, in
  order. This is what "splitting on runs of white space" means when said of the text
  itself, without reference to \<open>trim\<close> and \<open>split\<close>.
\<close>

function tokens :: "string \<Rightarrow> string list" where
  "tokens [] = []"
| "tokens (c # cs) =
     (if is_space c then tokens cs
      else (c # takeWhile (\<lambda>x. \<not> is_space x) cs) # tokens (dropWhile (\<lambda>x. \<not> is_space x) cs))"
  by pat_completeness auto
termination
  by (relation "measure length") (auto simp: less_Suc_eq_le length_dropWhile_le)

text \<open>
  The empty token that \<open>split\<close> leaves before a leading run of white space, and the one
  it leaves after a trailing run (or for the empty string).
\<close>

definition lead :: "string \<Rightarrow> string list" where
  "lead s = (if s \<noteq> [] \<and> is_space (hd s) then [[]] else [])"

definition trail :: "string \<Rightarrow> string list" where
  "trail s = (if s = [] \<or> is_space (last s) then [[]] else [])"

section \<open>The canonical sample document (samples/sample\_robot.urdf)\<close>






section \<open>Small inputs\<close>

text \<open>
  Three joints with all their required parts: one whose \<open>axis\<close> element carries another
  attribute but no \<open>xyz\<close>, one without an \<open>axis\<close> element, and one whose \<open>axis\<close> element
  has neither attributes nor content, which the XML layer hands over as the empty
  string. Three documents: a robot without children; a robot with a single link, joint,
  material and transmission, each handed over as a bare object; and a robot whose
  single link has no name and whose single material and transmission elements have
  neither attributes nor content. A link and a joint with every kind of sub-element.
\<close>

definition ex_joint_axis_other :: raw where
  "ex_joint_axis_other =
     RObj [(''name'', ''j''), (''type'', ''revolute'')]
      [(''parent'', RObj [(''link'', ''a'')] []), (''child'', RObj [(''link'', ''b'')] []),
       (''axis'', RObj [(''rpy'', ''0 0 0'')] [])]"

definition ex_joint_no_axis :: raw where
  "ex_joint_no_axis =
     RObj [(''name'', ''j''), (''type'', ''fixed'')]
      [(''parent'', RObj [(''link'', ''a'')] []), (''child'', RObj [(''link'', ''b'')] [])]"

definition ex_joint_empty_axis :: raw where
  "ex_joint_empty_axis =
     RObj [(''name'', ''j''), (''type'', ''fixed'')]
      [(''parent'', RObj [(''link'', ''a'')] []), (''child'', RObj [(''link'', ''b'')] []),
       (''axis'', RStr [])]"






section \<open>The loops as list functions\<close>

lemma processLinks_loop_acc:
  "processLinks_loop xs acc = acc @ processLinks_loop xs []"
proof (induction xs arbitrary: acc)
  case Nil
  show ?case by simp
next
  case (Cons l ls)
  show ?case
  proof (cases "getAttribute (Some l) ''name''")
    case None
    then show ?thesis using Cons.IH [of acc] by simp
  next
    case (Some nm)
    then show ?thesis
      using Cons.IH [of "acc @ [processedLink nm l]"] Cons.IH [of "[processedLink nm l]"]
      by simp
  qed
qed

lemma processLinks_map_filter:
  "processLinks (RArr ls) = List.map_filter convert_link ls"
proof -
  have "processLinks_loop ls [] = List.map_filter convert_link ls"
  proof (induction ls)
    case Nil
    show ?case by simp
  next
    case (Cons l ls)
    show ?case
    proof (cases "getAttribute (Some l) ''name''")
      case None
      then show ?thesis using Cons.IH by (simp add: convert_link_def)
    next
      case (Some nm)
      then show ?thesis
        using Cons.IH processLinks_loop_acc [of ls "[processedLink nm l]"]
        by (simp add: convert_link_def)
    qed
  qed
  then show ?thesis by (simp add: processLinks_def)
qed

lemma processJoints_loop_acc:
  "processJoints_loop xs acc = acc @ processJoints_loop xs []"
proof (induction xs arbitrary: acc)
  case Nil
  show ?case by simp
next
  case (Cons j js)
  have skip: "acc @ processJoints_loop js [] = processJoints_loop js acc"
    using Cons.IH [of acc] by simp
  have push: "processJoints_loop js (acc @ [J]) = acc @ processJoints_loop js [J]" for J
    using Cons.IH [of "acc @ [J]"] Cons.IH [of "[J]"] by simp
  show ?case
    by (simp add: skip push split: option.split)
qed

lemma processJoints_step:
  "processJoints_loop (j # js) [] =
     (case convert_joint j of None \<Rightarrow> processJoints_loop js []
      | Some J \<Rightarrow> J # processJoints_loop js [])"
proof -
  have none: "getAttribute None a = None" for a
    by (simp add: getAttribute_def)
  have falsy: "\<not> truthy_opt v \<Longrightarrow> getAttribute v a = None" for v a
    by (cases v) (simp_all add: getAttribute_def)
  have push: "processJoints_loop js [J] = J # processJoints_loop js []" for J
    using processJoints_loop_acc [of js "[J]"] by simp
  show ?thesis
    by (auto simp: convert_joint_def push falsy split: option.split)
qed

lemma processJoints_map_filter:
  "processJoints (RArr js) = List.map_filter convert_joint js"
proof -
  have "processJoints_loop js [] = List.map_filter convert_joint js"
  proof (induction js)
    case Nil
    show ?case by simp
  next
    case (Cons j js)
    show ?case
      unfolding processJoints_step using Cons.IH
      by (simp split: option.split)
  qed
  then show ?thesis by (simp add: processJoints_def)
qed



lemma map_filter_drop:
  "f x = None \<Longrightarrow> List.map_filter f (xs @ x # ys) = List.map_filter f (xs @ ys)"
  by (simp add: List.map_filter_def)




section \<open>The attribute accessor and the entities it gates\<close>

lemma getAttribute_some_iff:
  "getAttribute (Some v) a = Some s \<longleftrightarrow> get_attr v a = Some s \<and> s \<noteq> []"
  by (cases v) (auto simp: getAttribute_def split: option.splits)

lemma getAttribute_none_iff:
  "getAttribute (Some v) a = None \<longleftrightarrow> get_attr v a = None \<or> get_attr v a = Some []"
  by (cases v) (auto simp: getAttribute_def split: option.splits)


lemma convert_link_none:
  "get_attr l ''name'' = None \<or> get_attr l ''name'' = Some [] \<Longrightarrow> convert_link l = None"
proof -
  assume "get_attr l ''name'' = None \<or> get_attr l ''name'' = Some []"
  then have "getAttribute (Some l) ''name'' = None"
    by (simp add: getAttribute_none_iff)
  then show ?thesis by (simp add: convert_link_def)
qed


lemma convert_joint_none:
  "getAttribute (Some j) ''name'' = None \<or> getAttribute (Some j) ''type'' = None \<or>
   getAttribute (get_prop j ''parent'') ''link'' = None \<or>
   getAttribute (get_prop j ''child'') ''link'' = None \<Longrightarrow> convert_joint j = None"
  by (auto simp: convert_joint_def split: option.splits)

lemma convert_joint_some:
  assumes "get_attr j ''name'' = Some nm" "nm \<noteq> []"
    and "get_attr j ''type'' = Some ty" "ty \<noteq> []"
    and "get_prop j ''parent'' = Some p" "get_attr p ''link'' = Some pl" "pl \<noteq> []"
    and "get_prop j ''child'' = Some c" "get_attr c ''link'' = Some cl" "cl \<noteq> []"
  shows "convert_joint j = Some (processedJoint nm ty pl cl j)"
proof -
  have "getAttribute (Some j) ''name'' = Some nm" "getAttribute (Some j) ''type'' = Some ty"
    "getAttribute (get_prop j ''parent'') ''link'' = Some pl"
    "getAttribute (get_prop j ''child'') ''link'' = Some cl"
    using assms by (simp_all add: getAttribute_some_iff)
  then show ?thesis by (simp add: convert_joint_def)
qed

lemma mechanicalReduction_attrs:
  "mechanicalReduction nts (RObj as cs) = mechanicalReduction nts (RObj as' cs)"
  by (simp add: mechanicalReduction_def)

lemma processJoints_single:
  "processJoints (RArr [j]) = [J] \<Longrightarrow> \<exists>nm ty pl cl. J = processedJoint nm ty pl cl j"
  by (auto simp: processJoints_map_filter convert_joint_def split: option.splits)

section \<open>Splitting on white space\<close>

text \<open>
  What the code computes with \<open>value.trim().split(/\s+/)\<close> is the list of tokens, except
  that a string without any token gives one empty token.
\<close>

lemma tokens_dropWhile_space: "tokens (dropWhile is_space s) = tokens s"
  by (induction s) simp_all

lemma tokens_snoc_space: "is_space c \<Longrightarrow> tokens (u @ [c]) = tokens u"
proof (induction u rule: tokens.induct)
  case 1
  then show ?case by simp
next
  case (2 x xs)
  show ?case
  proof (cases "is_space x")
    case True
    then show ?thesis using 2 by simp
  next
    case False
    have all: "takeWhile (\<lambda>x. \<not> is_space x) xs = xs" if "\<forall>x\<in>set xs. \<not> is_space x"
      using that by simp
    have tw: "takeWhile (\<lambda>x. \<not> is_space x) (xs @ [c]) = takeWhile (\<lambda>x. \<not> is_space x) xs"
      using \<open>is_space c\<close> all by (simp add: takeWhile_append del: takeWhile_eq_all_conv)
    have dw: "dropWhile (\<lambda>x. \<not> is_space x) (xs @ [c]) = dropWhile (\<lambda>x. \<not> is_space x) xs @ [c]"
      using \<open>is_space c\<close> by (simp add: dropWhile_append)
    show ?thesis using False 2 by (simp add: tw dw)
  qed
qed

lemma tokens_drop_trailing: "tokens (rev (dropWhile is_space (rev u))) = tokens u"
proof (induction u rule: rev_induct)
  case Nil
  show ?case by simp
next
  case (snoc c v)
  show ?case
  proof (cases "is_space c")
    case True
    then show ?thesis using snoc by (simp add: tokens_snoc_space)
  next
    case False
    then show ?thesis by simp
  qed
qed

lemma tokens_trim: "tokens (trim s) = tokens s"
  by (simp add: trim_def tokens_drop_trailing tokens_dropWhile_space)

lemma last_dropWhile: "dropWhile P xs \<noteq> [] \<Longrightarrow> last (dropWhile P xs) = last xs"
  by (induction xs) (auto split: if_splits)

lemma dropWhile_rev_nonempty: "dropWhile P (rev d) \<noteq> [] \<Longrightarrow> d \<noteq> []"
  by (cases d) auto

lemma trail_dropWhile:
  "is_space c \<Longrightarrow> trail (dropWhile is_space cs) = trail (c # cs)"
proof (cases "dropWhile is_space cs = []")
  case True
  assume "is_space c"
  have "\<forall>x\<in>set cs. is_space x" using True by simp
  then have "is_space (last (c # cs))" using \<open>is_space c\<close> by simp
  then show ?thesis using True by (simp add: trail_def)
next
  case False
  then have "cs \<noteq> []" by auto
  have "last (dropWhile is_space cs) = last cs"
    using False by (rule last_dropWhile)
  then show ?thesis using False \<open>cs \<noteq> []\<close> by (simp add: trail_def)
qed

lemma lead_dropWhile: "lead (dropWhile is_space cs) = []"
proof -
  have "dropWhile is_space cs \<noteq> [] \<Longrightarrow> \<not> is_space (hd (dropWhile is_space cs))"
    by (rule hd_dropWhile)
  then show ?thesis by (auto simp: lead_def)
qed

lemma split_ws_tokens: "split_ws s = lead s @ tokens s @ trail s"
proof (induction s rule: split_ws.induct)
  case 1
  show ?case by (simp add: lead_def trail_def)
next
  case (2 c cs)
  show ?case
  proof (cases "is_space c")
    case True
    have "split_ws (c # cs) = [] # split_ws (dropWhile is_space cs)"
      using True by simp
    also have "\<dots> = [] # tokens (dropWhile is_space cs) @ trail (dropWhile is_space cs)"
      using 2(1) [OF True] by (simp add: lead_dropWhile)
    also have "\<dots> = lead (c # cs) @ tokens (c # cs) @ trail (c # cs)"
      using True by (simp add: lead_def tokens_dropWhile_space trail_dropWhile)
    finally show ?thesis .
  next
    case False
    note IH = 2(2) [OF False]
    show ?thesis
    proof (cases cs)
      case Nil
      then show ?thesis using False by (simp add: lead_def trail_def)
    next
      case (Cons x xs)
      show ?thesis
      proof (cases "is_space x")
        case True
        then show ?thesis using False IH Cons by (simp add: lead_def trail_def)
      next
        case nsx: False
        then show ?thesis using False IH Cons by (simp add: lead_def trail_def)
      qed
    qed
  qed
qed

lemma trim_ends:
  "trim s = [] \<or> (\<not> is_space (hd (trim s)) \<and> \<not> is_space (last (trim s)))"
proof (cases "trim s = []")
  case True
  then show ?thesis by simp
next
  case False
  let ?d = "dropWhile is_space s"
  let ?r = "dropWhile is_space (rev ?d)"
  have r_ne: "?r \<noteq> []" using False by (simp add: trim_def)
  have "\<not> is_space (hd ?r)" using r_ne by (rule hd_dropWhile)
  then have last_ok: "\<not> is_space (last (trim s))"
    using r_ne by (simp add: trim_def last_rev)
  have d_ne: "?d \<noteq> []" using r_ne by (rule dropWhile_rev_nonempty)
  have hd_d: "\<not> is_space (hd ?d)" using d_ne by (rule hd_dropWhile)
  have "hd (rev ?r) = last ?r" using r_ne by (simp add: hd_rev)
  moreover have "last ?r = last (rev ?d)"
    using r_ne by (rule last_dropWhile)
  moreover have "last (rev ?d) = hd ?d" using d_ne by (simp add: last_rev)
  ultimately have "\<not> is_space (hd (trim s))" using hd_d by (simp add: trim_def)
  then show ?thesis using last_ok by simp
qed

lemma split_ws_trim:
  "split_ws (trim s) = (if tokens s = [] then [[]] else tokens s)"
proof (cases "trim s = []")
  case True
  then have "tokens s = []" using tokens_trim [of s] by simp
  then show ?thesis using True by simp
next
  case False
  then have ends: "\<not> is_space (hd (trim s))" "\<not> is_space (last (trim s))"
    using trim_ends [of s] by auto
  have "split_ws (trim s) = tokens (trim s)"
    using False ends by (simp add: split_ws_tokens lead_def trail_def)
  moreover have "tokens (trim s) \<noteq> []"
    using False ends by (cases "trim s") auto
  ultimately show ?thesis by (simp add: tokens_trim)
qed

lemma parseVector3_tokens_eq:
  "parseVector3 (Some s) D =
     (case tokens s of
        [a, b, c] \<Rightarrow> \<lparr>vx = parseNumber (Some a) (vx D), vy = parseNumber (Some b) (vy D),
                      vz = parseNumber (Some c) (vz D)\<rparr>
      | _ \<Rightarrow> D)"
proof (cases "length (tokens s) = 3")
  case True
  then obtain a b c where abc: "tokens s = [a, b, c]"
    by (auto simp: length_Suc_conv numeral_3_eq_3)
  then show ?thesis
    by (simp add: parseVector3_def split_ws_trim)
next
  case False
  then have "length (split_ws (trim s)) \<noteq> 3"
    by (simp add: split_ws_trim)
  then have "parseVector3 (Some s) D = D"
    by (simp add: parseVector3_def Let_def)
  moreover have "(case tokens s of
        [a, b, c] \<Rightarrow> \<lparr>vx = parseNumber (Some a) (vx D), vy = parseNumber (Some b) (vy D),
                      vz = parseNumber (Some c) (vz D)\<rparr>
      | _ \<Rightarrow> D) = D"
    using False by (auto split: list.splits)
  ultimately show ?thesis by simp
qed

section \<open>The sample document, evaluated\<close>


section \<open>The collections of the robot\<close>






section \<open>Properties\<close>






text \<open>
  C3. A parsed document without a \<open>robot\<close> entry makes \<open>processURDF\<close> (and so \<open>parse\<close>)
  raise the error \<open>Invalid URDF: Missing robot element\<close>, with no robot returned. A
  document that is accepted and whose robot node has no \<open>name\<close> attribute yields a robot
  whose name is the empty string, and no error.
\<close>

theorem processURDF_root:
  "(get_prop parsed ''robot'' = None \<longrightarrow>
      processURDF nts parsed = Inl (Error ''Invalid URDF: Missing robot element'')) \<and>
   (get_prop parsed' ''robot'' = Some robot \<and> truthy robot \<and> get_attr robot ''name'' = None \<longrightarrow>
      (\<exists>r. processURDF nts parsed' = Inr r \<and> r_name r = []))"
  by (simp add: processURDF_def missing_robot_def getAttribute_def)

theorem processURDF_root_witness:
  "get_prop (RObj [] [(''not_a_robot'', RStr [])]) ''robot'' = None \<and>
   processURDF number_text (RObj [] [(''not_a_robot'', RStr [])])
     = Inl (Error ''Invalid URDF: Missing robot element'') \<and>
   get_prop (RObj [] [(''robot'', RObj [] [(''link'', RObj [(''name'', ''a'')] [])])]) ''robot''
     = Some (RObj [] [(''link'', RObj [(''name'', ''a'')] [])]) \<and>
   truthy (RObj [] [(''link'', RObj [(''name'', ''a'')] [])]) \<and>
   get_attr (RObj [] [(''link'', RObj [(''name'', ''a'')] [])]) ''name'' = None \<and>
   (\<exists>r. processURDF number_text (RObj [] [(''robot'', RObj [] [(''link'', RObj [(''name'', ''a'')] [])])])
          = Inr r \<and> r_name r = [])"
  using processURDF_root [of "RObj [] [(''not_a_robot'', RStr [])]" number_text
      "RObj [] [(''robot'', RObj [] [(''link'', RObj [(''name'', ''a'')] [])])]"
      "RObj [] [(''link'', RObj [(''name'', ''a'')] [])]"]
  by simp



text \<open>
  C5. \<open>parseVector3\<close> returns the default vector as a whole when the text is absent or
  does not have exactly three tokens. With exactly three tokens each component is
  \<open>parseNumber\<close> of its token with the same component of the default as fallback, and
  \<open>parseNumber\<close> falls back exactly when \<open>parseFloat\<close> gives \<open>NaN\<close>. The tokens are those
  the code obtains by trimming and splitting. \<open>"1.0 abc 3.0"\<close> with the default
  \<open>(0, 0, 0)\<close> gives \<open>(1, 0, 3)\<close>.
\<close>

theorem parseVector3_tokens:
  "parseVector3 None D = D \<and>
   (length (tokens raw) \<noteq> 3 \<longrightarrow> parseVector3 (Some raw) D = D) \<and>
   (tokens raw' = [a, b, c] \<longrightarrow>
      parseVector3 (Some raw') D =
        \<lparr>vx = parseNumber (Some a) (vx D), vy = parseNumber (Some b) (vy D),
         vz = parseNumber (Some c) (vz D)\<rparr>) \<and>
   split_ws (trim raw) = (if tokens raw = [] then [[]] else tokens raw) \<and>
   parseNumber (Some t) d = (if parseFloat t = NaN then d else parseFloat t) \<and>
   parseVector3 (Some ''1.0 abc 3.0'') \<lparr>vx = Fin 0, vy = Fin 0, vz = Fin 0\<rparr>
     = \<lparr>vx = Fin 1, vy = Fin 0, vz = Fin 3\<rparr>"
proof (intro conjI impI)
  show "parseVector3 None D = D" by (simp add: parseVector3_def)
  show "length (tokens raw) \<noteq> 3 \<Longrightarrow> parseVector3 (Some raw) D = D"
    by (auto simp: parseVector3_tokens_eq split: list.splits)
  show "tokens raw' = [a, b, c] \<Longrightarrow>
      parseVector3 (Some raw') D =
        \<lparr>vx = parseNumber (Some a) (vx D), vy = parseNumber (Some b) (vy D),
         vz = parseNumber (Some c) (vz D)\<rparr>"
    by (simp add: parseVector3_tokens_eq)
  show "split_ws (trim raw) = (if tokens raw = [] then [[]] else tokens raw)"
    by (rule split_ws_trim)
  show "parseNumber (Some t) d = (if parseFloat t = NaN then d else parseFloat t)"
    by (simp add: parseNumber_def isNaN_def Let_def)
  show "parseVector3 (Some ''1.0 abc 3.0'') \<lparr>vx = Fin 0, vy = Fin 0, vz = Fin 0\<rparr>
     = \<lparr>vx = Fin 1, vy = Fin 0, vz = Fin 3\<rparr>"
    by code_simp
qed

theorem parseVector3_tokens_witness:
  "length (tokens ''1.0 2.0'') \<noteq> 3 \<and>
   parseVector3 (Some ''1.0 2.0'') \<lparr>vx = Fin 5, vy = Fin 6, vz = Fin 7\<rparr>
     = \<lparr>vx = Fin 5, vy = Fin 6, vz = Fin 7\<rparr> \<and>
   tokens '' 4  abc 2.5 '' = [''4'', ''abc'', ''2.5''] \<and>
   parseVector3 (Some '' 4  abc 2.5 '') \<lparr>vx = Fin 5, vy = Fin 6, vz = Fin 7\<rparr>
     = \<lparr>vx = Fin 4, vy = Fin 6, vz = Fin (5 / 2)\<rparr>"
proof -
  have t2: "tokens ''1.0 2.0'' = [''1.0'', ''2.0'']" by code_simp
  have t3: "tokens '' 4  abc 2.5 '' = [''4'', ''abc'', ''2.5'']" by code_simp
  have n: "parseNumber (Some ''4'') (Fin 5) = Fin 4" "parseNumber (Some ''abc'') (Fin 6) = Fin 6"
    "parseNumber (Some ''2.5'') (Fin 7) = Fin (5 / 2)"
    by code_simp+
  show ?thesis
    using parseVector3_tokens [of "\<lparr>vx = Fin 5, vy = Fin 6, vz = Fin 7\<rparr>" "''1.0 2.0''"
        "'' 4  abc 2.5 ''" "''4''" "''abc''" "''2.5''"]
    by (simp add: t2 t3 n del: tokens.simps)
qed

text \<open>
  C6. \<open>ensureArray\<close> returns a sequence unchanged, the empty sequence for \<open>undefined\<close>
  and the one-element sequence \<open>[v]\<close> for a value \<open>v\<close> that is not a sequence; applied to
  its own result it changes nothing.
\<close>

theorem ensureArray_shapes:
  "ensureArray (Some (RArr xs)) = xs \<and>
   ensureArray None = [] \<and>
   (\<not> isArray v \<longrightarrow> ensureArray (Some v) = [v]) \<and>
   ensureArray (Some (RArr (ensureArray e))) = ensureArray e"
  by (cases v) simp_all

theorem ensureArray_shapes_witness:
  "ensureArray (Some (RArr [RNum (Fin 1), RNum (Fin 2), RNum (Fin 3)]))
     = [RNum (Fin 1), RNum (Fin 2), RNum (Fin 3)] \<and>
   ensureArray None = [] \<and>
   \<not> isArray (RStr ''item'') \<and> ensureArray (Some (RStr ''item'')) = [RStr ''item''] \<and>
   ensureArray (Some (RArr (ensureArray (Some (RStr ''item''))))) = ensureArray (Some (RStr ''item''))"
  using ensureArray_shapes [of "[RNum (Fin 1), RNum (Fin 2), RNum (Fin 3)]" "RStr ''item''" "Some (RStr ''item'')"]
  by simp

text \<open>
  C7, as the code has it. For a joint that is converted: when its \<open>axis\<close> entry is
  truthy (an element with an attribute, a child or text) and has no \<open>xyz\<close> attribute,
  the axis of the output joint is \<open>(1, 0, 0)\<close>; when the joint has no \<open>axis\<close> entry, or
  the entry is falsy, the output joint has no axis.
\<close>

theorem joint_axis_default:
  "(processJoints (RArr [joint]) = [J] \<and> get_prop joint ''axis'' = Some a \<and> truthy a \<and>
      get_attr a ''xyz'' = None \<longrightarrow>
      j_axis J = Some \<lparr>vx = Fin 1, vy = Fin 0, vz = Fin 0\<rparr>) \<and>
   (processJoints (RArr [joint0]) = [J0] \<and> get_prop joint0 ''axis'' = None \<longrightarrow> j_axis J0 = None) \<and>
   (processJoints (RArr [joint1]) = [J1] \<and> get_prop joint1 ''axis'' = Some a1 \<and> \<not> truthy a1 \<longrightarrow>
      j_axis J1 = None)"
proof (intro conjI impI)
  assume h: "processJoints (RArr [joint]) = [J] \<and> get_prop joint ''axis'' = Some a \<and> truthy a \<and>
      get_attr a ''xyz'' = None"
  then obtain nm ty pl cl where J: "J = processedJoint nm ty pl cl joint"
    using processJoints_single by blast
  have "getAttribute (Some a) ''xyz'' = None" using h by (simp add: getAttribute_none_iff)
  then show "j_axis J = Some \<lparr>vx = Fin 1, vy = Fin 0, vz = Fin 0\<rparr>"
    using h by (simp add: J processedJoint_def parseVector3_def)
next
  assume h: "processJoints (RArr [joint0]) = [J0] \<and> get_prop joint0 ''axis'' = None"
  then obtain nm ty pl cl where J: "J0 = processedJoint nm ty pl cl joint0"
    using processJoints_single by blast
  show "j_axis J0 = None" using h by (simp add: J processedJoint_def)
next
  assume h: "processJoints (RArr [joint1]) = [J1] \<and> get_prop joint1 ''axis'' = Some a1 \<and> \<not> truthy a1"
  then obtain nm ty pl cl where J: "J1 = processedJoint nm ty pl cl joint1"
    using processJoints_single by blast
  show "j_axis J1 = None" using h by (simp add: J processedJoint_def)
qed

theorem joint_axis_default_witness:
  "processJoints (RArr [ex_joint_axis_other])
     = [processedJoint ''j'' ''revolute'' ''a'' ''b'' ex_joint_axis_other] \<and>
   get_prop ex_joint_axis_other ''axis'' = Some (RObj [(''rpy'', ''0 0 0'')] []) \<and>
   truthy (RObj [(''rpy'', ''0 0 0'')] []) \<and>
   get_attr (RObj [(''rpy'', ''0 0 0'')] []) ''xyz'' = None \<and>
   j_axis (processedJoint ''j'' ''revolute'' ''a'' ''b'' ex_joint_axis_other)
     = Some \<lparr>vx = Fin 1, vy = Fin 0, vz = Fin 0\<rparr> \<and>
   processJoints (RArr [ex_joint_no_axis])
     = [processedJoint ''j'' ''fixed'' ''a'' ''b'' ex_joint_no_axis] \<and>
   get_prop ex_joint_no_axis ''axis'' = None \<and>
   j_axis (processedJoint ''j'' ''fixed'' ''a'' ''b'' ex_joint_no_axis) = None \<and>
   processJoints (RArr [ex_joint_empty_axis])
     = [processedJoint ''j'' ''fixed'' ''a'' ''b'' ex_joint_empty_axis] \<and>
   get_prop ex_joint_empty_axis ''axis'' = Some (RStr []) \<and> \<not> truthy (RStr []) \<and>
   j_axis (processedJoint ''j'' ''fixed'' ''a'' ''b'' ex_joint_empty_axis) = None"
proof -
  have c: "processJoints (RArr [ex_joint_axis_other])
       = [processedJoint ''j'' ''revolute'' ''a'' ''b'' ex_joint_axis_other]"
    "processJoints (RArr [ex_joint_no_axis])
       = [processedJoint ''j'' ''fixed'' ''a'' ''b'' ex_joint_no_axis]"
    "processJoints (RArr [ex_joint_empty_axis])
       = [processedJoint ''j'' ''fixed'' ''a'' ''b'' ex_joint_empty_axis]"
    by (simp_all add: processJoints_map_filter convert_joint_some ex_joint_axis_other_def
        ex_joint_no_axis_def ex_joint_empty_axis_def)
  have p: "get_prop ex_joint_axis_other ''axis'' = Some (RObj [(''rpy'', ''0 0 0'')] [])"
    "get_prop ex_joint_no_axis ''axis'' = None"
    "get_prop ex_joint_empty_axis ''axis'' = Some (RStr [])"
    by (simp_all add: ex_joint_axis_other_def ex_joint_no_axis_def ex_joint_empty_axis_def)
  show ?thesis
    using joint_axis_default [of ex_joint_axis_other
        "processedJoint ''j'' ''revolute'' ''a'' ''b'' ex_joint_axis_other"
        "RObj [(''rpy'', ''0 0 0'')] []"
        ex_joint_no_axis "processedJoint ''j'' ''fixed'' ''a'' ''b'' ex_joint_no_axis"
        ex_joint_empty_axis "processedJoint ''j'' ''fixed'' ''a'' ''b'' ex_joint_empty_axis"
        "RStr []"]
    by (simp add: c p)
qed

text \<open>
  C7 as stated fails for an \<open>axis\<close> element with neither attributes nor content: the
  element is there and has no \<open>xyz\<close> attribute, the joint is converted, and yet its axis
  is left out instead of being \<open>(1, 0, 0)\<close>.
\<close>

theorem joint_axis_empty_element:
  "get_prop (RObj [(''name'', ''j''), (''type'', ''fixed'')]
       [(''parent'', RObj [(''link'', ''a'')] []), (''child'', RObj [(''link'', ''b'')] []),
        (''axis'', RStr [])]) ''axis'' = Some (RStr []) \<and>
   get_attr (RStr []) ''xyz'' = None \<and>
   map j_name (processJoints (RArr [RObj [(''name'', ''j''), (''type'', ''fixed'')]
       [(''parent'', RObj [(''link'', ''a'')] []), (''child'', RObj [(''link'', ''b'')] []),
        (''axis'', RStr [])]])) = [''j''] \<and>
   map j_axis (processJoints (RArr [RObj [(''name'', ''j''), (''type'', ''fixed'')]
       [(''parent'', RObj [(''link'', ''a'')] []), (''child'', RObj [(''link'', ''b'')] []),
        (''axis'', RStr [])]])) = [None]"
  by code_simp

text \<open>
  C8, as the code has it. For a mesh element: a non-empty \<open>scale\<close> attribute that does
  not have exactly three tokens gives the scale \<open>(1, 1, 1)\<close>; one with exactly three
  tokens gives, component by component, \<open>parseNumber\<close> of the token with fallback 1; a
  \<open>scale\<close> attribute that is absent or the empty string leaves the scale out. A truthy
  \<open>mesh\<close> entry of a geometry is converted this way.
\<close>

theorem mesh_scale_rule:
  "(get_attr m ''scale'' = Some s \<and> s \<noteq> [] \<and> length (tokens s) \<noteq> 3 \<longrightarrow>
      mesh_scale (processMesh m) = Some \<lparr>vx = Fin 1, vy = Fin 1, vz = Fin 1\<rparr>) \<and>
   (get_attr m' ''scale'' = Some s' \<and> tokens s' = [a, b, c] \<longrightarrow>
      mesh_scale (processMesh m') =
        Some \<lparr>vx = parseNumber (Some a) (Fin 1), vy = parseNumber (Some b) (Fin 1),
              vz = parseNumber (Some c) (Fin 1)\<rparr>) \<and>
   (get_attr m0 ''scale'' = None \<longrightarrow> mesh_scale (processMesh m0) = None) \<and>
   (get_attr m1 ''scale'' = Some [] \<longrightarrow> mesh_scale (processMesh m1) = None) \<and>
   (get_prop g ''mesh'' = Some m2 \<and> truthy m2 \<longrightarrow> g_mesh (processGeometry g) = Some (processMesh m2))"
proof (intro conjI impI)
  assume h: "get_attr m ''scale'' = Some s \<and> s \<noteq> [] \<and> length (tokens s) \<noteq> 3"
  then have "getAttribute (Some m) ''scale'' = Some s" by (simp add: getAttribute_some_iff)
  moreover have "parseVector3 (Some s) \<lparr>vx = Fin 1, vy = Fin 1, vz = Fin 1\<rparr>
      = \<lparr>vx = Fin 1, vy = Fin 1, vz = Fin 1\<rparr>"
    using h by (auto simp: parseVector3_tokens_eq split: list.splits)
  ultimately show "mesh_scale (processMesh m) = Some \<lparr>vx = Fin 1, vy = Fin 1, vz = Fin 1\<rparr>"
    by (simp add: processMesh_def)
next
  assume h: "get_attr m' ''scale'' = Some s' \<and> tokens s' = [a, b, c]"
  then have "s' \<noteq> []" by auto
  then have "getAttribute (Some m') ''scale'' = Some s'" using h by (simp add: getAttribute_some_iff)
  then show "mesh_scale (processMesh m') =
        Some \<lparr>vx = parseNumber (Some a) (Fin 1), vy = parseNumber (Some b) (Fin 1),
              vz = parseNumber (Some c) (Fin 1)\<rparr>"
    using h by (simp add: processMesh_def parseVector3_tokens_eq)
next
  assume "get_attr m0 ''scale'' = None"
  then have "getAttribute (Some m0) ''scale'' = None" by (simp add: getAttribute_none_iff)
  then show "mesh_scale (processMesh m0) = None" by (simp add: processMesh_def)
next
  assume "get_attr m1 ''scale'' = Some []"
  then have "getAttribute (Some m1) ''scale'' = None" by (simp add: getAttribute_none_iff)
  then show "mesh_scale (processMesh m1) = None" by (simp add: processMesh_def)
next
  assume "get_prop g ''mesh'' = Some m2 \<and> truthy m2"
  then show "g_mesh (processGeometry g) = Some (processMesh m2)"
    by (simp add: processGeometry_def)
qed

theorem mesh_scale_rule_witness:
  "get_attr (RObj [(''filename'', ''m.stl''), (''scale'', ''1 2'')] []) ''scale'' = Some ''1 2'' \<and>
   ''1 2'' \<noteq> [] \<and> length (tokens ''1 2'') \<noteq> 3 \<and>
   mesh_scale (processMesh (RObj [(''filename'', ''m.stl''), (''scale'', ''1 2'')] []))
     = Some \<lparr>vx = Fin 1, vy = Fin 1, vz = Fin 1\<rparr> \<and>
   get_attr (RObj [(''filename'', ''m.stl''), (''scale'', ''2 abc 3'')] []) ''scale'' = Some ''2 abc 3'' \<and>
   tokens ''2 abc 3'' = [''2'', ''abc'', ''3''] \<and>
   mesh_scale (processMesh (RObj [(''filename'', ''m.stl''), (''scale'', ''2 abc 3'')] []))
     = Some \<lparr>vx = Fin 2, vy = Fin 1, vz = Fin 3\<rparr> \<and>
   get_attr (RObj [(''filename'', ''m.stl'')] []) ''scale'' = None \<and>
   mesh_scale (processMesh (RObj [(''filename'', ''m.stl'')] [])) = None \<and>
   get_attr (RObj [(''filename'', ''m.stl''), (''scale'', [])] []) ''scale'' = Some [] \<and>
   mesh_scale (processMesh (RObj [(''filename'', ''m.stl''), (''scale'', [])] [])) = None \<and>
   get_prop (RObj [] [(''mesh'', RObj [(''filename'', ''m.stl'')] [])]) ''mesh''
     = Some (RObj [(''filename'', ''m.stl'')] []) \<and>
   truthy (RObj [(''filename'', ''m.stl'')] []) \<and>
   g_mesh (processGeometry (RObj [] [(''mesh'', RObj [(''filename'', ''m.stl'')] [])]))
     = Some (processMesh (RObj [(''filename'', ''m.stl'')] []))"
proof -
  have t2: "tokens ''1 2'' = [''1'', ''2'']" by code_simp
  have t3: "tokens ''2 abc 3'' = [''2'', ''abc'', ''3'']" by code_simp
  have n: "parseNumber (Some ''2'') (Fin 1) = Fin 2" "parseNumber (Some ''abc'') (Fin 1) = Fin 1"
    "parseNumber (Some ''3'') (Fin 1) = Fin 3"
    by code_simp+
  show ?thesis
    using mesh_scale_rule [of "RObj [(''filename'', ''m.stl''), (''scale'', ''1 2'')] []" "''1 2''"
        "RObj [(''filename'', ''m.stl''), (''scale'', ''2 abc 3'')] []" "''2 abc 3''"
        "''2''" "''abc''" "''3''"
        "RObj [(''filename'', ''m.stl'')] []"
        "RObj [(''filename'', ''m.stl''), (''scale'', [])] []"
        "RObj [] [(''mesh'', RObj [(''filename'', ''m.stl'')] [])]"
        "RObj [(''filename'', ''m.stl'')] []"]
    by (simp add: t2 t3 n del: tokens.simps)
qed

text \<open>
  C8 as stated fails for \<open>scale=""\<close>: the attribute exists and does not have three
  tokens, and the scale is left out instead of being \<open>(1, 1, 1)\<close>. With three tokens of
  which one is not a number, as in \<open>"2 abc 3"\<close>, only that component is 1.
\<close>

theorem mesh_scale_empty_or_partial:
  "get_attr (RObj [(''filename'', ''m.stl''), (''scale'', [])] []) ''scale'' = Some [] \<and>
   length (split_ws (trim [])) = 1 \<and>
   map_option mesh_scale (g_mesh (processGeometry
     (RObj [] [(''mesh'', RObj [(''filename'', ''m.stl''), (''scale'', [])] [])]))) = Some None \<and>
   map_option mesh_scale (g_mesh (processGeometry
     (RObj [] [(''mesh'', RObj [(''filename'', ''m.stl''), (''scale'', ''2 abc 3'')] [])])))
     = Some (Some \<lparr>vx = Fin 2, vy = Fin 1, vz = Fin 3\<rparr>)"
  by code_simp

text \<open>
  C9, as the code has it. The \<open>type\<close> of a transmission and the \<open>mechanicalReduction\<close>
  of its actuator do not depend on the attributes of the element they belong to; they
  come from the child element of that name, and only when its raw value is truthy.
  For \<open>type\<close>: an object whose text entry is a non-empty string gives that string, a
  non-empty bare string gives itself, a non-zero number or \<open>true\<close> gives its string
  form. For \<open>mechanicalReduction\<close>: an object with a truthy text entry gives
  \<open>parseNumber\<close> of that text, a non-empty string or a non-zero number gives
  \<open>parseNumber\<close> of its string form, always a number; a boolean and a falsy value leave
  the field out.
\<close>

theorem transmission_text_fields:
  "t_type (processedTransmission nts (RObj as cs)) = t_type (processedTransmission nts (RObj as' cs)) \<and>
   mechanicalReduction nts (RObj as cs) = mechanicalReduction nts (RObj as' cs) \<and>
   (get_prop t ''type'' = Some (RObj tas tcs) \<and> map_of tcs ''#text'' = Some (RStr s) \<and> s \<noteq> [] \<longrightarrow>
      t_type (processedTransmission nts t) = Some (RStr s)) \<and>
   (get_prop t1 ''type'' = Some (RStr s1) \<and> s1 \<noteq> [] \<longrightarrow>
      t_type (processedTransmission nts t1) = Some (RStr s1)) \<and>
   (get_prop t2 ''type'' = Some v \<and> truthy v \<and> (is_number v \<or> v = RBool True) \<longrightarrow>
      t_type (processedTransmission nts t2) = Some (RStr (js_toString nts v))) \<and>
   (get_prop t3 ''actuator'' = Some a3 \<and> truthy a3 \<longrightarrow>
      map_option a_mechanicalReduction (t_actuator (processedTransmission nts t3))
        = Some (mechanicalReduction nts a3)) \<and>
   (get_prop a ''mechanicalReduction'' = Some (RObj mas mcs) \<and> map_of mcs ''#text'' = Some tv \<and>
    truthy tv \<longrightarrow>
      mechanicalReduction nts a = Some (parseNumber (Some (js_toString nts tv)) (Fin 0))) \<and>
   (get_prop a1 ''mechanicalReduction'' = Some (RStr ms) \<and> ms \<noteq> [] \<longrightarrow>
      mechanicalReduction nts a1 = Some (parseNumber (Some ms) (Fin 0))) \<and>
   (get_prop a2 ''mechanicalReduction'' = Some (RNum n) \<and> truthy (RNum n) \<longrightarrow>
      mechanicalReduction nts a2 = Some (parseNumber (Some (nts n)) (Fin 0))) \<and>
   (get_prop a4 ''mechanicalReduction'' = Some (RBool b) \<longrightarrow> mechanicalReduction nts a4 = None) \<and>
   (get_prop a5 ''mechanicalReduction'' = Some v5 \<and> \<not> truthy v5 \<longrightarrow>
      mechanicalReduction nts a5 = None) \<and>
   (get_prop t5 ''type'' = Some v6 \<and> \<not> truthy v6 \<longrightarrow> t_type (processedTransmission nts t5) = None)"
proof (intro conjI impI)
  show "t_type (processedTransmission nts (RObj as cs)) = t_type (processedTransmission nts (RObj as' cs))"
    by (simp add: processedTransmission_def transmissionType_def)
  show "mechanicalReduction nts (RObj as cs) = mechanicalReduction nts (RObj as' cs)"
    by (rule mechanicalReduction_attrs)
  show "t_type (processedTransmission nts t) = Some (RStr s)"
    if "get_prop t ''type'' = Some (RObj tas tcs) \<and> map_of tcs ''#text'' = Some (RStr s) \<and> s \<noteq> []"
    using that by (simp add: processedTransmission_def transmissionType_def)
  show "t_type (processedTransmission nts t1) = Some (RStr s1)"
    if "get_prop t1 ''type'' = Some (RStr s1) \<and> s1 \<noteq> []"
    using that by (simp add: processedTransmission_def transmissionType_def)
  show "t_type (processedTransmission nts t2) = Some (RStr (js_toString nts v))"
    if "get_prop t2 ''type'' = Some v \<and> truthy v \<and> (is_number v \<or> v = RBool True)"
    using that by (cases v) (auto simp: processedTransmission_def transmissionType_def)
  show "map_option a_mechanicalReduction (t_actuator (processedTransmission nts t3))
        = Some (mechanicalReduction nts a3)"
    if "get_prop t3 ''actuator'' = Some a3 \<and> truthy a3"
    using that by (simp add: processedTransmission_def)
  show "mechanicalReduction nts a = Some (parseNumber (Some (js_toString nts tv)) (Fin 0))"
    if "get_prop a ''mechanicalReduction'' = Some (RObj mas mcs) \<and> map_of mcs ''#text'' = Some tv \<and>
        truthy tv"
    using that by (simp add: mechanicalReduction_def)
  show "mechanicalReduction nts a1 = Some (parseNumber (Some ms) (Fin 0))"
    if "get_prop a1 ''mechanicalReduction'' = Some (RStr ms) \<and> ms \<noteq> []"
    using that by (simp add: mechanicalReduction_def)
  show "mechanicalReduction nts a2 = Some (parseNumber (Some (nts n)) (Fin 0))"
    if "get_prop a2 ''mechanicalReduction'' = Some (RNum n) \<and> truthy (RNum n)"
    using that by (simp add: mechanicalReduction_def)
  show "mechanicalReduction nts a4 = None"
    if "get_prop a4 ''mechanicalReduction'' = Some (RBool b)"
    using that by (simp add: mechanicalReduction_def)
  show "mechanicalReduction nts a5 = None"
    if "get_prop a5 ''mechanicalReduction'' = Some v5 \<and> \<not> truthy v5"
    using that by (simp add: mechanicalReduction_def)
  show "t_type (processedTransmission nts t5) = None"
    if "get_prop t5 ''type'' = Some v6 \<and> \<not> truthy v6"
    using that by (simp add: processedTransmission_def transmissionType_def)
qed

theorem transmission_text_fields_witness:
  "t_type (processedTransmission number_text (RObj [(''name'', ''t'')] [(''type'', RStr ''T'')]))
     = t_type (processedTransmission number_text (RObj [(''type'', ''A'')] [(''type'', RStr ''T'')])) \<and>
   get_prop (RObj [] [(''type'', RObj [(''id'', ''x'')] [(''#text'', RStr ''T'')])]) ''type''
     = Some (RObj [(''id'', ''x'')] [(''#text'', RStr ''T'')]) \<and>
   map_of [(''#text'', RStr ''T'')] ''#text'' = Some (RStr ''T'') \<and> ''T'' \<noteq> [] \<and>
   t_type (processedTransmission number_text
       (RObj [] [(''type'', RObj [(''id'', ''x'')] [(''#text'', RStr ''T'')])])) = Some (RStr ''T'') \<and>
   t_type (processedTransmission number_text (RObj [] [(''type'', RStr ''T'')])) = Some (RStr ''T'') \<and>
   truthy (RNum (Fin 5)) \<and> is_number (RNum (Fin 5)) \<and>
   t_type (processedTransmission number_text (RObj [] [(''type'', RNum (Fin 5))])) = Some (RStr ''5'') \<and>
   truthy (RObj [(''name'', ''m'')] [(''mechanicalReduction'', RNum (Fin 50))]) \<and>
   map_option a_mechanicalReduction (t_actuator (processedTransmission number_text
       (RObj [] [(''actuator'', RObj [(''name'', ''m'')] [(''mechanicalReduction'', RNum (Fin 50))])])))
     = Some (Some (Fin 50)) \<and>
   truthy (RNum (Fin 10)) \<and>
   mechanicalReduction number_text
       (RObj [] [(''mechanicalReduction'', RObj [(''unit'', ''x'')] [(''#text'', RNum (Fin 10))])])
     = Some (Fin 10) \<and>
   mechanicalReduction number_text (RObj [] [(''mechanicalReduction'', RStr ''2.5'')])
     = Some (Fin (5 / 2)) \<and>
   mechanicalReduction number_text (RObj [(''name'', ''m'')] [(''mechanicalReduction'', RNum (Fin 50))])
     = Some (Fin 50) \<and>
   mechanicalReduction number_text (RObj [] [(''mechanicalReduction'', RBool True)]) = None \<and>
   \<not> truthy (RNum (Fin 0)) \<and>
   mechanicalReduction number_text (RObj [] [(''mechanicalReduction'', RNum (Fin 0))]) = None \<and>
   \<not> truthy (RStr []) \<and>
   t_type (processedTransmission number_text (RObj [] [(''type'', RStr [])])) = None"
proof -
  have n: "parseNumber (Some (number_text (Fin 10))) (Fin 0) = Fin 10"
    "parseNumber (Some ''2.5'') (Fin 0) = Fin (5 / 2)"
    "parseNumber (Some (number_text (Fin 50))) (Fin 0) = Fin 50"
    "number_text (Fin 5) = ''5''"
    by code_simp+
  show ?thesis
    using transmission_text_fields [where nts = number_text
        and as = "[(''name'', ''t'')]" and as' = "[(''type'', ''A'')]"
        and cs = "[(''type'', RStr ''T'')]"
        and t = "RObj [] [(''type'', RObj [(''id'', ''x'')] [(''#text'', RStr ''T'')])]"
        and tas = "[(''id'', ''x'')]" and tcs = "[(''#text'', RStr ''T'')]" and s = "''T''"
        and ?t1.0 = "RObj [] [(''type'', RStr ''T'')]" and ?s1.0 = "''T''"
        and ?t2.0 = "RObj [] [(''type'', RNum (Fin 5))]" and v = "RNum (Fin 5)"
        and ?t3.0 = "RObj [] [(''actuator'', RObj [(''name'', ''m'')] [(''mechanicalReduction'', RNum (Fin 50))])]"
        and ?a3.0 = "RObj [(''name'', ''m'')] [(''mechanicalReduction'', RNum (Fin 50))]"
        and a = "RObj [] [(''mechanicalReduction'', RObj [(''unit'', ''x'')] [(''#text'', RNum (Fin 10))])]"
        and mas = "[(''unit'', ''x'')]" and mcs = "[(''#text'', RNum (Fin 10))]" and tv = "RNum (Fin 10)"
        and ?a1.0 = "RObj [] [(''mechanicalReduction'', RStr ''2.5'')]" and ms = "''2.5''"
        and ?a2.0 = "RObj [(''name'', ''m'')] [(''mechanicalReduction'', RNum (Fin 50))]" and n = "Fin 50"
        and ?a4.0 = "RObj [] [(''mechanicalReduction'', RBool True)]" and b = True
        and ?a5.0 = "RObj [] [(''mechanicalReduction'', RNum (Fin 0))]" and ?v5.0 = "RNum (Fin 0)"
        and ?t5.0 = "RObj [] [(''type'', RStr [])]" and ?v6.0 = "RStr []"]
    by (auto simp add: n simp del: number_text.simps)
qed

text \<open>
  C9 as stated fails for a \<open>mechanicalReduction\<close> element whose text the XML layer
  hands over as a boolean or as the number 0: both are primitives other than a string,
  and the field is left out instead of holding a number.
\<close>

theorem transmission_primitive_unhandled:
  "processTransmissions number_text
     (RObj [(''name'', ''t'')]
        [(''type'', RStr ''T''),
         (''actuator'', RObj [(''name'', ''m'')] [(''mechanicalReduction'', RBool True)])])
     = [\<lparr>t_name = Some ''t'', t_type = Some (RStr ''T''), t_joint = None,
         t_actuator = Some \<lparr>a_name = ''m'', a_mechanicalReduction = None\<rparr>\<rparr>] \<and>
   processTransmissions number_text
     (RObj [(''name'', ''t'')]
        [(''type'', RStr ''T''),
         (''actuator'', RObj [(''name'', ''m'')] [(''mechanicalReduction'', RNum (Fin 0))])])
     = [\<lparr>t_name = Some ''t'', t_type = Some (RStr ''T''), t_joint = None,
         t_actuator = Some \<lparr>a_name = ''m'', a_mechanicalReduction = None\<rparr>\<rparr>]"
  by code_simp

text \<open>
  C10. \<open>getAttribute\<close> is total (it cannot throw) and returns \<open>undefined\<close> for an
  \<open>undefined\<close> node, for a missing attribute and for an attribute stored as the empty
  string; a non-empty stored value is returned as it is. Hence a link whose \<open>name\<close> is
  the empty string is dropped exactly like a link without a \<open>name\<close>, and a joint whose
  parent element has \<open>link=""\<close> exactly like one whose parent has no \<open>link\<close> attribute:
  in each case the output is that of the document without the entity.
\<close>

theorem getAttribute_falsy:
  "getAttribute None a = None \<and>
   (get_attr v0 a = None \<longrightarrow> getAttribute (Some v0) a = None) \<and>
   (get_attr v1 a = Some [] \<longrightarrow> getAttribute (Some v1) a = None) \<and>
   (get_attr v a = Some s \<and> s \<noteq> [] \<longrightarrow> getAttribute (Some v) a = Some s) \<and>
   (get_attr l ''name'' = Some [] \<longrightarrow>
      processLinks (RArr (xs @ l # ys)) = processLinks (RArr (xs @ ys))) \<and>
   (get_attr l' ''name'' = None \<longrightarrow>
      processLinks (RArr (xs @ l' # ys)) = processLinks (RArr (xs @ ys))) \<and>
   (get_prop j ''parent'' = Some p \<and> get_attr p ''link'' = Some [] \<longrightarrow>
      processJoints (RArr (xs @ j # ys)) = processJoints (RArr (xs @ ys))) \<and>
   (get_prop j' ''parent'' = Some p' \<and> get_attr p' ''link'' = None \<longrightarrow>
      processJoints (RArr (xs @ j' # ys)) = processJoints (RArr (xs @ ys)))"
proof (intro conjI impI)
  show "getAttribute None a = None" by (simp add: getAttribute_def)
  show "get_attr v0 a = None \<Longrightarrow> getAttribute (Some v0) a = None"
    by (simp add: getAttribute_none_iff)
  show "get_attr v1 a = Some [] \<Longrightarrow> getAttribute (Some v1) a = None"
    by (simp add: getAttribute_none_iff)
  show "get_attr v a = Some s \<and> s \<noteq> [] \<Longrightarrow> getAttribute (Some v) a = Some s"
    by (simp add: getAttribute_some_iff)
  show "get_attr l ''name'' = Some [] \<Longrightarrow>
      processLinks (RArr (xs @ l # ys)) = processLinks (RArr (xs @ ys))"
    by (simp add: processLinks_map_filter map_filter_drop convert_link_none)
  show "get_attr l' ''name'' = None \<Longrightarrow>
      processLinks (RArr (xs @ l' # ys)) = processLinks (RArr (xs @ ys))"
    by (simp add: processLinks_map_filter map_filter_drop convert_link_none)
  show "processJoints (RArr (xs @ j # ys)) = processJoints (RArr (xs @ ys))"
    if "get_prop j ''parent'' = Some p \<and> get_attr p ''link'' = Some []"
  proof -
    have "getAttribute (get_prop j ''parent'') ''link'' = None"
      using that by (simp add: getAttribute_none_iff)
    then show ?thesis
      by (simp add: processJoints_map_filter map_filter_drop convert_joint_none)
  qed
  show "processJoints (RArr (xs @ j' # ys)) = processJoints (RArr (xs @ ys))"
    if "get_prop j' ''parent'' = Some p' \<and> get_attr p' ''link'' = None"
  proof -
    have "getAttribute (get_prop j' ''parent'') ''link'' = None"
      using that by (simp add: getAttribute_none_iff)
    then show ?thesis
      by (simp add: processJoints_map_filter map_filter_drop convert_joint_none)
  qed
qed

theorem getAttribute_falsy_witness:
  "getAttribute None ''name'' = None \<and>
   get_attr (RObj [(''foo'', ''x'')] []) ''name'' = None \<and> getAttribute (Some (RObj [(''foo'', ''x'')] [])) ''name'' = None \<and>
   get_attr (RObj [(''name'', [])] []) ''name'' = Some [] \<and> getAttribute (Some (RObj [(''name'', [])] [])) ''name'' = None \<and>
   get_attr (RObj [(''name'', ''a'')] []) ''name'' = Some ''a'' \<and> getAttribute (Some (RObj [(''name'', ''a'')] [])) ''name'' = Some ''a'' \<and>
   processLinks (RArr [RObj [(''name'', ''a'')] [], RObj [(''name'', [])] []]) = processLinks (RArr [RObj [(''name'', ''a'')] []]) \<and>
   processLinks (RArr [RObj [(''name'', ''a'')] [], RObj [(''foo'', ''x'')] []]) = processLinks (RArr [RObj [(''name'', ''a'')] []]) \<and>
   get_prop (RObj [(''name'', ''j''), (''type'', ''fixed'')] [(''parent'', RObj [(''link'', [])] []), (''child'', RObj [(''link'', ''c'')] [])]) ''parent'' = Some (RObj [(''link'', [])] []) \<and>
   get_attr (RObj [(''link'', [])] []) ''link'' = Some [] \<and>
   processJoints (RArr [RObj [(''name'', ''a'')] [], RObj [(''name'', ''j''), (''type'', ''fixed'')] [(''parent'', RObj [(''link'', [])] []), (''child'', RObj [(''link'', ''c'')] [])]]) = processJoints (RArr [RObj [(''name'', ''a'')] []]) \<and>
   get_prop (RObj [(''name'', ''j''), (''type'', ''fixed'')] [(''parent'', RObj [(''foo'', ''x'')] []), (''child'', RObj [(''link'', ''c'')] [])]) ''parent'' = Some (RObj [(''foo'', ''x'')] []) \<and>
   get_attr (RObj [(''foo'', ''x'')] []) ''link'' = None \<and>
   processJoints (RArr [RObj [(''name'', ''a'')] [], RObj [(''name'', ''j''), (''type'', ''fixed'')] [(''parent'', RObj [(''foo'', ''x'')] []), (''child'', RObj [(''link'', ''c'')] [])]]) = processJoints (RArr [RObj [(''name'', ''a'')] []])"
  using getAttribute_falsy [where a = "''name''" and ?v0.0 = "RObj [(''foo'', ''x'')] []" and ?v1.0 = "RObj [(''name'', [])] []"
      and v = "RObj [(''name'', ''a'')] []" and s = "''a''" and l = "RObj [(''name'', [])] []" and l' = "RObj [(''foo'', ''x'')] []"
      and xs = "[RObj [(''name'', ''a'')] []]" and ys = "[]"
      and j = "RObj [(''name'', ''j''), (''type'', ''fixed'')] [(''parent'', RObj [(''link'', [])] []), (''child'', RObj [(''link'', ''c'')] [])]" and p = "RObj [(''link'', [])] []" and j' = "RObj [(''name'', ''j''), (''type'', ''fixed'')] [(''parent'', RObj [(''foo'', ''x'')] []), (''child'', RObj [(''link'', ''c'')] [])]" and p' = "RObj [(''foo'', ''x'')] []"]
  by simp

end
